theory Spec2Isabelle
  imports Main "HOL-Library.Word"
begin

section \<open>The input server of BlueZ: \<^verbatim>\<open>input/server.c\<close>\<close>

text \<open>
  The file accepts L2CAP connections of HID devices on two PSMs (control and interrupt),
  asks for the authorization of a device when its interrupt channel arrives, and starts
  and stops the two listeners. Every function of the file is embedded below as a HOL
  function over

  \<^item> the three module-level variables (\<^verbatim>\<open>connection\<close>, \<^verbatim>\<open>ctrl_io\<close>, \<^verbatim>\<open>intr_io\<close>) as a record
    that is passed in and returned;
  \<^item> the functions of other modules and libraries that return a value the code branches
    on, as the fields of an environment record;
  \<^item> every other call that leaves the file (device registry, D-Bus, glib, the socket, the
    log) as an event; a function returns the list of its events, in program order.

  A C pointer that the code tests against \<^verbatim>\<open>NULL\<close> is an \<open>option\<close>. The messages of the
  log are kept as their format strings. \<^verbatim>\<open>g_new0\<close> either returns memory or ends the
  process, so the model has no branch for it.
\<close>

subsection \<open>Data\<close>

type_synonym bdaddr = "8 word list"
  \<comment> \<open>\<^verbatim>\<open>bdaddr_t\<close>: the six bytes of a device address\<close>

type_synonym dbus_connection = nat
  \<comment> \<open>a \<^verbatim>\<open>DBusConnection *\<close> that is not \<^verbatim>\<open>NULL\<close>\<close>

type_synonym dbus_pending_call = nat
  \<comment> \<open>a \<^verbatim>\<open>DBusPendingCall *\<close> that is not \<^verbatim>\<open>NULL\<close>\<close>

datatype giochannel = GIOChannel (g_io_channel_unix_get_fd: int)
  \<comment> \<open>a \<^verbatim>\<open>GIOChannel *\<close> that is not \<^verbatim>\<open>NULL\<close>, with the descriptor it wraps\<close>

record dbus_error =
  err_name :: string
  err_message :: string

datatype dbus_message =
    MethodCall string string string string "string list"
      \<comment> \<open>destination, path, interface, method, string arguments\<close>
  | MethodReturn
  | ErrorReply dbus_error

text \<open>\<^verbatim>\<open>struct authorization_data { bdaddr_t src; bdaddr_t dst; }\<close>\<close>

record authorization_data =
  auth_src :: bdaddr
  auth_dst :: bdaddr

text \<open>
  The continuation that an authorization request leaves behind: \<^verbatim>\<open>auth_callback\<close> given to
  \<^verbatim>\<open>service_req_auth\<close>, or \<^verbatim>\<open>authorization_callback\<close> given to
  \<^verbatim>\<open>dbus_pending_call_set_notify\<close>, each with its \<^verbatim>\<open>authorization_data\<close>.
\<close>

datatype continuation =
    Primary authorization_data
  | Fallback authorization_data

datatype event =
    LogError string
  | LogDebug string
  | Write int "8 word list"
  | Close int
  | SetChannel bdaddr bdaddr int int
  | Connadd bdaddr bdaddr
  | CloseChannels bdaddr bdaddr
  | ReqAuth bdaddr bdaddr string
  | ServiceCancelAuth bdaddr
  | NewMethodCall string string string string
  | SendMessage "dbus_connection option" dbus_message
  | SendWithReply "dbus_connection option" dbus_message
  | SetNotify "dbus_pending_call option" authorization_data
  | PendingCallUnref "dbus_pending_call option"
  | MessageUnref dbus_message
  | ErrorFree dbus_error
  | GFree authorization_data
  | Listen int
  | SetCloseOnUnref "giochannel option" bool
  | Unref giochannel

text \<open>
  The module-level variables. All three are \<^verbatim>\<open>NULL\<close> when the program starts.
\<close>

record server_state =
  connection :: "dbus_connection option"
  ctrl_io :: "giochannel option"
  intr_io :: "giochannel option"

definition initial_state :: server_state where
  "initial_state = \<lparr>connection = None, ctrl_io = None, intr_io = None\<rparr>"

text \<open>
  What the code calls and branches on. None of these functions is defined in
  \<^verbatim>\<open>input/server.c\<close>, so each is a parameter: a field gives, for the arguments of the call,
  the value that the call returns (for a function that returns a pointer or a
  \<^verbatim>\<open>dbus_bool_t\<close>, whether the result is not \<^verbatim>\<open>NULL\<close>, not \<^verbatim>\<open>FALSE\<close>).

  \<^verbatim>\<open>dbus_connection_send_with_reply\<close> has a second result, the pointer that it stores in
  \<^verbatim>\<open>pending\<close> when it returns \<^verbatim>\<open>TRUE\<close>; that is the field \<open>pending_return\<close>. D-Bus stores
  \<^verbatim>\<open>NULL\<close> there when the connection is disconnected, and still returns \<^verbatim>\<open>TRUE\<close>.
\<close>

record env =
  ba2str :: "bdaddr \<Rightarrow> string"
  input_device_set_channel :: "bdaddr \<Rightarrow> bdaddr \<Rightarrow> int \<Rightarrow> int \<Rightarrow> int"
  service_req_auth :: "bdaddr \<Rightarrow> bdaddr \<Rightarrow> string \<Rightarrow> int"
  dbus_message_new_method_call :: "string \<Rightarrow> string \<Rightarrow> string \<Rightarrow> string \<Rightarrow> bool"
  dbus_connection_send_with_reply :: "dbus_connection option \<Rightarrow> dbus_message \<Rightarrow> bool"
  pending_return :: "dbus_connection option \<Rightarrow> dbus_message \<Rightarrow> dbus_pending_call option"
  bt_l2cap_listen :: "int \<Rightarrow> giochannel option"

subsection \<open>Constants\<close>

definition HID_UUID :: string where
  "HID_UUID = ''00001124-0000-1000-8000-00805f9b34fb''"

text \<open>
  The constants below come from headers outside the file: the two PSMs of the HID profile,
  the name of the D-Bus error for a method call that got no reply, and two
  \<^verbatim>\<open>errno\<close> values of Linux.
\<close>

definition L2CAP_PSM_HIDP_CTRL :: int where
  "L2CAP_PSM_HIDP_CTRL = 0x11"

definition L2CAP_PSM_HIDP_INTR :: int where
  "L2CAP_PSM_HIDP_INTR = 0x13"

definition DBUS_ERROR_NO_REPLY :: string where
  "DBUS_ERROR_NO_REPLY = ''org.freedesktop.DBus.Error.NoReply''"

definition ENOMEM :: int where
  "ENOMEM = 12"

definition EACCES :: int where
  "EACCES = 13"

subsection \<open>The D-Bus error helpers\<close>

text \<open>
  \<^verbatim>\<open>dbus_set_error_from_message\<close> fills the error and returns \<^verbatim>\<open>TRUE\<close> exactly for a message
  of the error type; \<^verbatim>\<open>dbus_error_has_name\<close> compares the name of the error.
\<close>

definition dbus_set_error_from_message :: "dbus_message \<Rightarrow> dbus_error option" where
  "dbus_set_error_from_message reply =
     (case reply of ErrorReply derr \<Rightarrow> Some derr | _ \<Rightarrow> None)"

definition dbus_error_has_name :: "dbus_error \<Rightarrow> string \<Rightarrow> bool" where
  "dbus_error_has_name derr n = (err_name derr = n)"

subsection \<open>Authorization\<close>

text \<open>
  \<^verbatim>\<open>cancel_authorization\<close>: builds the \<^verbatim>\<open>CancelAuthorizationRequest\<close> call and sends it with
  \<^verbatim>\<open>send_message_and_unref\<close>; when the message cannot be allocated it logs and returns.
\<close>

definition cancel_authorization :: "env \<Rightarrow> server_state \<Rightarrow> string \<Rightarrow> event list" where
  "cancel_authorization E st addr =
     NewMethodCall ''org.bluez'' ''/org/bluez'' ''org.bluez.Database''
         ''CancelAuthorizationRequest'' #
     (if \<not> dbus_message_new_method_call E ''org.bluez'' ''/org/bluez''
             ''org.bluez.Database'' ''CancelAuthorizationRequest''
      then [LogError ''Unable to allocate new method call'']
      else [SendMessage (connection st)
              (MethodCall ''org.bluez'' ''/org/bluez'' ''org.bluez.Database''
                 ''CancelAuthorizationRequest'' [addr, HID_UUID])])"

text \<open>
  \<^verbatim>\<open>authorization_callback\<close>, the continuation of the fallback request. Its argument is the
  reply that \<^verbatim>\<open>dbus_pending_call_steal_reply\<close> hands over.
\<close>

definition authorization_callback ::
  "env \<Rightarrow> server_state \<Rightarrow> dbus_message \<Rightarrow> authorization_data \<Rightarrow> event list" where
  "authorization_callback E st reply auth =
     (case dbus_set_error_from_message reply of
        None \<Rightarrow> [MessageUnref reply, Connadd (auth_src auth) (auth_dst auth)]
      | Some derr \<Rightarrow>
          [LogError ''Authorization denied: %s''] @
          (if dbus_error_has_name derr DBUS_ERROR_NO_REPLY
           then cancel_authorization E st (ba2str E (auth_dst auth))
           else []) @
          [CloseChannels (auth_src auth) (auth_dst auth),
           ErrorFree derr,
           MessageUnref reply])"

text \<open>
  \<^verbatim>\<open>auth_callback\<close>, the continuation of the primary request. \<^verbatim>\<open>derr\<close> is a pointer, null
  when the authorization was granted.
\<close>

definition auth_callback :: "dbus_error option \<Rightarrow> authorization_data \<Rightarrow> event list" where
  "auth_callback derr auth =
     (case derr of
        Some e \<Rightarrow>
          [LogError ''Access denied: %s''] @
          (if dbus_error_has_name e DBUS_ERROR_NO_REPLY
           then [ServiceCancelAuth (auth_dst auth)]
           else []) @
          [CloseChannels (auth_src auth) (auth_dst auth)]
      | None \<Rightarrow> [Connadd (auth_src auth) (auth_dst auth)]) @
     [GFree auth]"

text \<open>
  The code of \<^verbatim>\<open>authorize_device\<close> after the label \<^verbatim>\<open>fallback\<close>. The result is the returned
  \<^verbatim>\<open>int\<close>, the continuation that was registered (if any) and the events.

  After a \<^verbatim>\<open>TRUE\<close> from \<^verbatim>\<open>dbus_connection_send_with_reply\<close> the code does not look at
  \<^verbatim>\<open>pending\<close>: it passes the pointer to \<^verbatim>\<open>dbus_pending_call_set_notify\<close>, drops the result
  of that call, and returns 0. \<^verbatim>\<open>authorization_callback\<close> is registered on the pending call,
  so with a null pointer no continuation is registered (D-Bus refuses the null argument).
\<close>

definition authorize_device_fallback ::
  "env \<Rightarrow> server_state \<Rightarrow> authorization_data \<Rightarrow> bdaddr \<Rightarrow>
     int \<times> continuation option \<times> event list" where
  "authorize_device_fallback E st auth dst =
     (if \<not> dbus_message_new_method_call E ''org.bluez'' ''/org/bluez''
             ''org.bluez.Database'' ''RequestAuthorization''
      then (- ENOMEM, None,
            [NewMethodCall ''org.bluez'' ''/org/bluez'' ''org.bluez.Database''
               ''RequestAuthorization'',
             LogError ''Unable to allocate new RequestAuthorization method call''])
      else
        (let msg = MethodCall ''org.bluez'' ''/org/bluez'' ''org.bluez.Database''
                     ''RequestAuthorization'' [ba2str E dst, HID_UUID]
         in if \<not> dbus_connection_send_with_reply E (connection st) msg
            then (- EACCES, None,
                  [NewMethodCall ''org.bluez'' ''/org/bluez'' ''org.bluez.Database''
                     ''RequestAuthorization'',
                   SendWithReply (connection st) msg])
            else
              (let pending = pending_return E (connection st) msg
               in (0,
                   (case pending of None \<Rightarrow> None | Some p \<Rightarrow> Some (Fallback auth)),
                   [NewMethodCall ''org.bluez'' ''/org/bluez'' ''org.bluez.Database''
                      ''RequestAuthorization'',
                    SendWithReply (connection st) msg,
                    SetNotify pending auth,
                    PendingCallUnref pending,
                    MessageUnref msg]))))"

text \<open>
  \<^verbatim>\<open>authorize_device\<close>. \<^verbatim>\<open>service_req_auth\<close> is given \<^verbatim>\<open>auth_callback\<close> and the
  \<^verbatim>\<open>authorization_data\<close>; its continuation is registered when it returns a value that is
  not negative, and only then (the file relies on this: on a negative value it hands the
  same \<^verbatim>\<open>authorization_data\<close> to the fallback request).
\<close>

definition authorize_device ::
  "env \<Rightarrow> server_state \<Rightarrow> bdaddr \<Rightarrow> bdaddr \<Rightarrow> int \<times> continuation option \<times> event list" where
  "authorize_device E st src dst =
     (let auth = \<lparr>auth_src = src, auth_dst = dst\<rparr>;
          retval = service_req_auth E src dst HID_UUID
      in if retval < 0
         then (case authorize_device_fallback E st auth dst of
                 (r, k, evs) \<Rightarrow> (r, k, ReqAuth src dst HID_UUID # evs))
         else (retval, Some (Primary auth), [ReqAuth src dst HID_UUID]))"

subsection \<open>Accepting a connection\<close>

text \<open>
  \<^verbatim>\<open>connect_event_cb\<close>. \<^verbatim>\<open>psm\<close> is the value that was registered with the listener. The
  result is the continuation left behind (if any) and the events.
\<close>

definition connect_event_cb ::
  "env \<Rightarrow> server_state \<Rightarrow> giochannel \<Rightarrow> int \<Rightarrow> bdaddr \<Rightarrow> bdaddr \<Rightarrow> int \<Rightarrow>
     continuation option \<times> event list" where
  "connect_event_cb E st chan err src dst psm =
     (if err < 0 then (None, [LogError ''accept: %s (%d)''])
      else
        (let sk = g_io_channel_unix_get_fd chan in
         if input_device_set_channel E src dst psm sk < 0
         then (None,
               [LogDebug ''Incoming connection on PSM %d'', SetChannel src dst psm sk] @
               (if psm = L2CAP_PSM_HIDP_CTRL then [Write sk [0x15]] else []) @
               [Close sk])
         else if psm = L2CAP_PSM_HIDP_INTR
         then (case authorize_device E st src dst of
                 (r, k, evs) \<Rightarrow>
                   (k,
                    [LogDebug ''Incoming connection on PSM %d'', SetChannel src dst psm sk] @
                    evs @
                    (if r < 0 then [CloseChannels src dst] else [])))
         else (None,
               [LogDebug ''Incoming connection on PSM %d'', SetChannel src dst psm sk])))"

text \<open>
  The main loop running a registered continuation: the primary one with the error pointer
  that the authorization service passes, the fallback one with the reply of the pending
  call, after which D-Bus frees the user data with the \<^verbatim>\<open>g_free\<close> given to
  \<^verbatim>\<open>dbus_pending_call_set_notify\<close>. \<open>st\<close> is the state at that later time.
\<close>

fun fire ::
  "env \<Rightarrow> server_state \<Rightarrow> continuation \<Rightarrow> dbus_error option \<Rightarrow> dbus_message \<Rightarrow> event list"
where
  "fire E st (Primary auth) derr reply = auth_callback derr auth"
| "fire E st (Fallback auth) derr reply = authorization_callback E st reply auth @ [GFree auth]"

text \<open>
  One accepted connection from the call of \<^verbatim>\<open>connect_event_cb\<close> to the end of the
  continuation it left behind, if it left one. When it left none (the connection was
  refused, no request could be made, or the fallback request got a null pending call)
  nothing runs later for the connection, and the run ends with \<^verbatim>\<open>connect_event_cb\<close>.
\<close>

definition connection_run ::
  "env \<Rightarrow> server_state \<Rightarrow> server_state \<Rightarrow> giochannel \<Rightarrow> int \<Rightarrow> bdaddr \<Rightarrow> bdaddr \<Rightarrow> int \<Rightarrow>
     dbus_error option \<Rightarrow> dbus_message \<Rightarrow> event list" where
  "connection_run E st st' chan err src dst psm derr reply =
     (case connect_event_cb E st chan err src dst psm of
        (None, evs) \<Rightarrow> evs
      | (Some k, evs) \<Rightarrow> evs @ fire E st' k derr reply)"

subsection \<open>Starting and stopping\<close>

text \<open>
  \<^verbatim>\<open>server_start\<close>. The result is the returned \<^verbatim>\<open>int\<close>, the module-level variables after
  the call and the events. After a failure to listen on the interrupt PSM the code goes on
  with the statements that follow the \<^verbatim>\<open>if\<close>.
\<close>

definition server_start ::
  "env \<Rightarrow> dbus_connection option \<Rightarrow> server_state \<Rightarrow> int \<times> server_state \<times> event list" where
  "server_start E conn st =
     (let st1 = st\<lparr>ctrl_io := bt_l2cap_listen E L2CAP_PSM_HIDP_CTRL\<rparr> in
      case ctrl_io st1 of
        None \<Rightarrow>
          (- 1, st1,
           [Listen L2CAP_PSM_HIDP_CTRL, LogError ''Failed to listen on control channel''])
      | Some c \<Rightarrow>
          (let st2 = st1\<lparr>intr_io := bt_l2cap_listen E L2CAP_PSM_HIDP_INTR\<rparr>;
               (st3, evs) =
                 (case intr_io st2 of
                    None \<Rightarrow>
                      (st2\<lparr>ctrl_io := None\<rparr>,
                       [LogError ''Failed to listen on interrupt channel'', Unref c])
                  | Some i \<Rightarrow> (st2, []))
           in (0, st3\<lparr>connection := conn\<rparr>,
               [Listen L2CAP_PSM_HIDP_CTRL, SetCloseOnUnref (Some c) True,
                Listen L2CAP_PSM_HIDP_INTR] @
               evs @
               [SetCloseOnUnref (intr_io st3) True])))"

text \<open>\<^verbatim>\<open>server_stop\<close>: the module-level variables after the call and the events.\<close>

definition server_stop :: "server_state \<Rightarrow> server_state \<times> event list" where
  "server_stop st =
     (st,
      (case intr_io st of Some i \<Rightarrow> [Unref i] | None \<Rightarrow> []) @
      (case ctrl_io st of Some c \<Rightarrow> [Unref c] | None \<Rightarrow> []))"

subsection \<open>Observations on a list of events\<close>

text \<open>A device pair is admitted by the call \<^verbatim>\<open>input_device_connadd(src, dst)\<close>.\<close>

definition admitted :: "bdaddr \<Rightarrow> bdaddr \<Rightarrow> event \<Rightarrow> bool" where
  "admitted src dst e = (e = Connadd src dst)"

text \<open>
  The channels of a pair are closed by \<^verbatim>\<open>input_device_close_channels(src, dst)\<close> or, for a
  channel that the registry did not take, by \<^verbatim>\<open>close(sk)\<close>.
\<close>

definition closed :: "bdaddr \<Rightarrow> bdaddr \<Rightarrow> int \<Rightarrow> event \<Rightarrow> bool" where
  "closed src dst sk e = (e = CloseChannels src dst \<or> e = Close sk)"

text \<open>The calls that admit or close, for any pair.\<close>

fun registry_call :: "event \<Rightarrow> bool" where
  "registry_call (Connadd s d) = True"
| "registry_call (CloseChannels s d) = True"
| "registry_call e = False"

text \<open>
  The calls that cancel an authorization request, for any address: \<^verbatim>\<open>service_cancel_auth\<close>,
  and a \<^verbatim>\<open>CancelAuthorizationRequest\<close> message that is sent.
\<close>

fun cancellation_call :: "event \<Rightarrow> bool" where
  "cancellation_call (ServiceCancelAuth d) = True"
| "cancellation_call (SendMessage c (MethodCall dest path iface method args)) =
     (method = ''CancelAuthorizationRequest'')"
| "cancellation_call e = False"

fun new_method_call :: "event \<Rightarrow> bool" where
  "new_method_call (NewMethodCall dest path iface method) = True"
| "new_method_call e = False"

fun write_call :: "event \<Rightarrow> bool" where
  "write_call (Write sk bytes) = True"
| "write_call e = False"


fun unref_call :: "event \<Rightarrow> bool" where
  "unref_call (Unref c) = True"
| "unref_call e = False"

text \<open>Whether an error pointer holds the error \<^verbatim>\<open>DBUS_ERROR_NO_REPLY\<close>.\<close>

definition no_reply :: "dbus_error option \<Rightarrow> bool" where
  "no_reply derr =
     (case derr of None \<Rightarrow> False | Some e \<Rightarrow> dbus_error_has_name e DBUS_ERROR_NO_REPLY)"

subsection \<open>Concrete inputs\<close>

text \<open>
  An environment for the examples: addresses are printed by their bytes in hexadecimal, the
  other answers are given as arguments. The two messages are told apart by the name of the
  method.
\<close>

definition hex_digit :: "nat \<Rightarrow> char" where
  "hex_digit n = ''0123456789ABCDEF'' ! n"

definition hex_byte :: "8 word \<Rightarrow> string" where
  "hex_byte b = [hex_digit (unat b div 16), hex_digit (unat b mod 16)]"

fun hex_address :: "bdaddr \<Rightarrow> string" where
  "hex_address [] = []"
| "hex_address [b] = hex_byte b"
| "hex_address (b # bs) = hex_address bs @ '':'' @ hex_byte b"

definition example_env ::
  "int \<Rightarrow> int \<Rightarrow> bool \<Rightarrow> bool \<Rightarrow> bool \<Rightarrow> giochannel option \<Rightarrow> giochannel option \<Rightarrow> env" where
  "example_env set_channel req_auth request_alloc send cancel_alloc ctrl intr =
     \<lparr>ba2str = hex_address,
      input_device_set_channel = (\<lambda>s d p sk. set_channel),
      service_req_auth = (\<lambda>s d u. req_auth),
      dbus_message_new_method_call =
        (\<lambda>dest path iface method.
           if method = ''RequestAuthorization'' then request_alloc else cancel_alloc),
      dbus_connection_send_with_reply = (\<lambda>c m. send),
      pending_return = (\<lambda>c m. Some 5),
      bt_l2cap_listen = (\<lambda>p. if p = L2CAP_PSM_HIDP_CTRL then ctrl else intr)\<rparr>"

text \<open>
  The same with a disconnected D-Bus connection: the registration succeeds, the primary
  request returns \<open>-1\<close>, the message is allocated, and \<^verbatim>\<open>dbus_connection_send_with_reply\<close>
  returns \<^verbatim>\<open>TRUE\<close> with a null pending call.
\<close>

definition disconnected_env :: env where
  "disconnected_env =
     (example_env 0 (- 1) True True True None None)\<lparr>pending_return := (\<lambda>c m. None)\<rparr>"

definition addr_A :: bdaddr where
  "addr_A = [0xAA, 0xAA, 0xAA, 0xAA, 0xAA, 0xAA]"

definition addr_B :: bdaddr where
  "addr_B = [0xBB, 0xBB, 0xBB, 0xBB, 0xBB, 0xBB]"

definition started_state :: server_state where
  "started_state =
     \<lparr>connection = Some 1, ctrl_io = Some (GIOChannel 3), intr_io = Some (GIOChannel 4)\<rparr>"

section \<open>Properties\<close>

subsection \<open>The outcomes of the functions, case by case\<close>



lemma cancel_authorization_no_outcome:
  "filter (admitted s d) (cancel_authorization E st addr) = []"
  "filter (closed s d sk) (cancel_authorization E st addr) = []"
  by (simp_all add: cancel_authorization_def admitted_def closed_def)

lemma auth_callback_outcome:
  "derr = None \<Longrightarrow> filter (admitted (auth_src a) (auth_dst a)) (auth_callback derr a) = [Connadd (auth_src a) (auth_dst a)]"
  "derr = None \<Longrightarrow> filter (closed (auth_src a) (auth_dst a) sk) (auth_callback derr a) = []"
  "derr \<noteq> None \<Longrightarrow> filter (admitted (auth_src a) (auth_dst a)) (auth_callback derr a) = []"
  "derr \<noteq> None \<Longrightarrow> filter (closed (auth_src a) (auth_dst a) sk) (auth_callback derr a) = [CloseChannels (auth_src a) (auth_dst a)]"
  by (auto simp: auth_callback_def admitted_def closed_def split: option.splits)

lemma authorization_callback_outcome:
  "dbus_set_error_from_message reply = None \<Longrightarrow> filter (admitted (auth_src a) (auth_dst a)) (authorization_callback E st reply a) = [Connadd (auth_src a) (auth_dst a)]"
  "dbus_set_error_from_message reply = None \<Longrightarrow> filter (closed (auth_src a) (auth_dst a) sk) (authorization_callback E st reply a) = []"
  "dbus_set_error_from_message reply \<noteq> None \<Longrightarrow> filter (admitted (auth_src a) (auth_dst a)) (authorization_callback E st reply a) = []"
  "dbus_set_error_from_message reply \<noteq> None \<Longrightarrow> filter (closed (auth_src a) (auth_dst a) sk) (authorization_callback E st reply a) = [CloseChannels (auth_src a) (auth_dst a)]"
  by (auto simp: authorization_callback_def cancel_authorization_no_outcome admitted_def closed_def split: option.splits)

lemma fire_outcome:
  "(length (filter (admitted (auth_src a) (auth_dst a)) (fire E st (Primary a) derr reply)) = 1 \<and>
    length (filter (closed (auth_src a) (auth_dst a) sk) (fire E st (Primary a) derr reply)) = 0) \<or>
   (length (filter (admitted (auth_src a) (auth_dst a)) (fire E st (Primary a) derr reply)) = 0 \<and>
    length (filter (closed (auth_src a) (auth_dst a) sk) (fire E st (Primary a) derr reply)) = 1)"
  "(length (filter (admitted (auth_src a) (auth_dst a)) (fire E st (Fallback a) derr reply)) = 1 \<and>
    length (filter (closed (auth_src a) (auth_dst a) sk) (fire E st (Fallback a) derr reply)) = 0) \<or>
   (length (filter (admitted (auth_src a) (auth_dst a)) (fire E st (Fallback a) derr reply)) = 0 \<and>
    length (filter (closed (auth_src a) (auth_dst a) sk) (fire E st (Fallback a) derr reply)) = 1)"
   apply (cases "derr = None"; simp add: auth_callback_outcome)
   apply (cases "dbus_set_error_from_message reply = None"; simp add: authorization_callback_outcome admitted_def closed_def)
  done


lemma authorize_device_primary:
  "\<not> service_req_auth E src dst HID_UUID < 0 \<Longrightarrow>
   authorize_device E st src dst =
     (service_req_auth E src dst HID_UUID, Some (Primary \<lparr>auth_src = src, auth_dst = dst\<rparr>),
      [ReqAuth src dst HID_UUID])"
  by (simp add: authorize_device_def Let_def)

lemma authorize_device_enomem:
  "service_req_auth E src dst HID_UUID < 0 \<Longrightarrow>
   \<not> dbus_message_new_method_call E ''org.bluez'' ''/org/bluez'' ''org.bluez.Database''
        ''RequestAuthorization'' \<Longrightarrow>
   authorize_device E st src dst =
     (- ENOMEM, None,
      [ReqAuth src dst HID_UUID,
       NewMethodCall ''org.bluez'' ''/org/bluez'' ''org.bluez.Database'' ''RequestAuthorization'',
       LogError ''Unable to allocate new RequestAuthorization method call''])"
  by (simp add: authorize_device_def Let_def authorize_device_fallback_def)

lemma authorize_device_eacces:
  "service_req_auth E src dst HID_UUID < 0 \<Longrightarrow>
   dbus_message_new_method_call E ''org.bluez'' ''/org/bluez'' ''org.bluez.Database''
        ''RequestAuthorization'' \<Longrightarrow>
   \<not> dbus_connection_send_with_reply E (connection st)
       (MethodCall ''org.bluez'' ''/org/bluez'' ''org.bluez.Database''
          ''RequestAuthorization'' [ba2str E dst, HID_UUID]) \<Longrightarrow>
   authorize_device E st src dst =
     (- EACCES, None,
      [ReqAuth src dst HID_UUID,
       NewMethodCall ''org.bluez'' ''/org/bluez'' ''org.bluez.Database'' ''RequestAuthorization'',
       SendWithReply (connection st)
         (MethodCall ''org.bluez'' ''/org/bluez'' ''org.bluez.Database''
            ''RequestAuthorization'' [ba2str E dst, HID_UUID])])"
  by (simp add: authorize_device_def Let_def authorize_device_fallback_def)

lemma authorize_device_sent:
  "service_req_auth E src dst HID_UUID < 0 \<Longrightarrow>
   dbus_message_new_method_call E ''org.bluez'' ''/org/bluez'' ''org.bluez.Database''
        ''RequestAuthorization'' \<Longrightarrow>
   dbus_connection_send_with_reply E (connection st)
       (MethodCall ''org.bluez'' ''/org/bluez'' ''org.bluez.Database''
          ''RequestAuthorization'' [ba2str E dst, HID_UUID]) \<Longrightarrow>
   authorize_device E st src dst =
     (0,
      (case pending_return E (connection st)
              (MethodCall ''org.bluez'' ''/org/bluez'' ''org.bluez.Database''
                 ''RequestAuthorization'' [ba2str E dst, HID_UUID]) of
         None \<Rightarrow> None
       | Some p \<Rightarrow> Some (Fallback \<lparr>auth_src = src, auth_dst = dst\<rparr>)),
      [ReqAuth src dst HID_UUID,
       NewMethodCall ''org.bluez'' ''/org/bluez'' ''org.bluez.Database'' ''RequestAuthorization'',
       SendWithReply (connection st)
         (MethodCall ''org.bluez'' ''/org/bluez'' ''org.bluez.Database''
            ''RequestAuthorization'' [ba2str E dst, HID_UUID]),
       SetNotify
         (pending_return E (connection st)
            (MethodCall ''org.bluez'' ''/org/bluez'' ''org.bluez.Database''
               ''RequestAuthorization'' [ba2str E dst, HID_UUID]))
         \<lparr>auth_src = src, auth_dst = dst\<rparr>,
       PendingCallUnref
         (pending_return E (connection st)
            (MethodCall ''org.bluez'' ''/org/bluez'' ''org.bluez.Database''
               ''RequestAuthorization'' [ba2str E dst, HID_UUID])),
       MessageUnref (MethodCall ''org.bluez'' ''/org/bluez'' ''org.bluez.Database''
            ''RequestAuthorization'' [ba2str E dst, HID_UUID])])"
  by (simp add: authorize_device_def Let_def authorize_device_fallback_def)

lemma errno_positive: "0 < ENOMEM" "0 < EACCES" "ENOMEM \<noteq> EACCES"
  by (simp_all add: ENOMEM_def EACCES_def)

lemma connect_event_cb_interrupt:
  "0 \<le> err \<Longrightarrow>
   \<not> input_device_set_channel E src dst L2CAP_PSM_HIDP_INTR (g_io_channel_unix_get_fd chan) < 0 \<Longrightarrow>
   connect_event_cb E st chan err src dst L2CAP_PSM_HIDP_INTR =
     (fst (snd (authorize_device E st src dst)),
      [LogDebug ''Incoming connection on PSM %d'',
       SetChannel src dst L2CAP_PSM_HIDP_INTR (g_io_channel_unix_get_fd chan)] @
      snd (snd (authorize_device E st src dst)) @
      (if fst (authorize_device E st src dst) < 0 then [CloseChannels src dst] else []))"
  by (simp add: connect_event_cb_def Let_def split: prod.splits)

lemma connect_event_cb_unregistered:
  "0 \<le> err \<Longrightarrow>
   input_device_set_channel E src dst psm (g_io_channel_unix_get_fd chan) < 0 \<Longrightarrow>
   connect_event_cb E st chan err src dst psm =
     (None,
      [LogDebug ''Incoming connection on PSM %d'',
       SetChannel src dst psm (g_io_channel_unix_get_fd chan)] @
      (if psm = L2CAP_PSM_HIDP_CTRL then [Write (g_io_channel_unix_get_fd chan) [0x15]] else []) @
      [Close (g_io_channel_unix_get_fd chan)])"
  by (simp add: connect_event_cb_def Let_def)

lemma psm_distinct: "L2CAP_PSM_HIDP_INTR \<noteq> L2CAP_PSM_HIDP_CTRL"
  by (simp add: L2CAP_PSM_HIDP_INTR_def L2CAP_PSM_HIDP_CTRL_def)

subsection \<open>An accepted interrupt connection\<close>

text \<open>
  A connection accepted on the interrupt PSM (\<open>0 \<le> err\<close>) is followed to the end of the
  continuation that \<^verbatim>\<open>connect_event_cb\<close> leaves behind, which the main loop runs once with
  any error pointer or reply. When the fallback request, if it is sent, gets a pending call,
  either the pair is admitted once (\<^verbatim>\<open>input_device_connadd\<close>) and nothing of it is closed,
  or it is closed once (\<^verbatim>\<open>close\<close> of the socket, or \<^verbatim>\<open>input_device_close_channels\<close>) and
  not admitted. This covers the failed registration, the two negative results of
  \<^verbatim>\<open>authorize_device\<close>, the primary continuation and the fallback continuation.
\<close>

lemma interrupt_connection_outcome_with_pending_call:
  assumes "0 \<le> err" and "psm = L2CAP_PSM_HIDP_INTR"
    and "pending_return E (connection st)
           (MethodCall ''org.bluez'' ''/org/bluez'' ''org.bluez.Database''
              ''RequestAuthorization'' [ba2str E dst, HID_UUID]) \<noteq> None"
  shows "(length (filter (admitted src dst)
            (connection_run E st st' chan err src dst psm derr reply)) = 1 \<and>
          length (filter (closed src dst (g_io_channel_unix_get_fd chan))
            (connection_run E st st' chan err src dst psm derr reply)) = 0) \<or>
         (length (filter (admitted src dst)
            (connection_run E st st' chan err src dst psm derr reply)) = 0 \<and>
          length (filter (closed src dst (g_io_channel_unix_get_fd chan))
            (connection_run E st st' chan err src dst psm derr reply)) = 1)"
proof -
  let ?sk = "g_io_channel_unix_get_fd chan"
  let ?a = "\<lparr>auth_src = src, auth_dst = dst\<rparr>"
  let ?msg = "MethodCall ''org.bluez'' ''/org/bluez'' ''org.bluez.Database''
          ''RequestAuthorization'' [ba2str E dst, HID_UUID]"
  consider
      (unregistered) "input_device_set_channel E src dst L2CAP_PSM_HIDP_INTR ?sk < 0"
    | (primary) "\<not> input_device_set_channel E src dst L2CAP_PSM_HIDP_INTR ?sk < 0"
        "\<not> service_req_auth E src dst HID_UUID < 0"
    | (enomem) "\<not> input_device_set_channel E src dst L2CAP_PSM_HIDP_INTR ?sk < 0"
        "service_req_auth E src dst HID_UUID < 0"
        "\<not> dbus_message_new_method_call E ''org.bluez'' ''/org/bluez'' ''org.bluez.Database''
            ''RequestAuthorization''"
    | (eacces) "\<not> input_device_set_channel E src dst L2CAP_PSM_HIDP_INTR ?sk < 0"
        "service_req_auth E src dst HID_UUID < 0"
        "dbus_message_new_method_call E ''org.bluez'' ''/org/bluez'' ''org.bluez.Database''
            ''RequestAuthorization''"
        "\<not> dbus_connection_send_with_reply E (connection st) ?msg"
    | (sent) "\<not> input_device_set_channel E src dst L2CAP_PSM_HIDP_INTR ?sk < 0"
        "service_req_auth E src dst HID_UUID < 0"
        "dbus_message_new_method_call E ''org.bluez'' ''/org/bluez'' ''org.bluez.Database''
            ''RequestAuthorization''"
        "dbus_connection_send_with_reply E (connection st) ?msg"
    by blast
  then show ?thesis
  proof cases
    case unregistered
    with assms show ?thesis
      by (simp add: connection_run_def connect_event_cb_unregistered psm_distinct
          admitted_def closed_def)
  next
    case primary
    have run: "connection_run E st st' chan err src dst psm derr reply =
        [LogDebug ''Incoming connection on PSM %d'', SetChannel src dst L2CAP_PSM_HIDP_INTR ?sk,
         ReqAuth src dst HID_UUID] @ fire E st' (Primary ?a) derr reply"
      using assms primary
      by (simp add: connection_run_def connect_event_cb_interrupt authorize_device_primary)
    show ?thesis
      using fire_outcome(1) [of ?a E st' derr reply ?sk]
      by (simp add: run admitted_def closed_def)
  next
    case enomem
    with assms show ?thesis
      by (simp add: connection_run_def connect_event_cb_interrupt authorize_device_enomem
          errno_positive admitted_def closed_def)
  next
    case eacces
    with assms show ?thesis
      by (simp add: connection_run_def connect_event_cb_interrupt authorize_device_eacces
          errno_positive admitted_def closed_def)
  next
    case sent
    obtain p where p: "pending_return E (connection st) ?msg = Some p"
      using assms(3) by blast
    have run: "connection_run E st st' chan err src dst psm derr reply =
        [LogDebug ''Incoming connection on PSM %d'', SetChannel src dst L2CAP_PSM_HIDP_INTR ?sk,
         ReqAuth src dst HID_UUID,
         NewMethodCall ''org.bluez'' ''/org/bluez'' ''org.bluez.Database'' ''RequestAuthorization'',
         SendWithReply (connection st) ?msg, SetNotify (Some p) ?a, PendingCallUnref (Some p),
         MessageUnref ?msg] @
        fire E st' (Fallback ?a) derr reply"
      using assms(1,2) sent p
      by (simp add: connection_run_def connect_event_cb_interrupt authorize_device_sent)
    show ?thesis
      using fire_outcome(2) [of ?a E st' derr reply ?sk]
      by (simp add: run admitted_def closed_def)
  qed
qed

text \<open>
  Claim C1 asks that every connection accepted on the interrupt PSM end in exactly one of
  the two outcomes, and never in neither. The code misses one case. When the primary
  request fails and \<^verbatim>\<open>dbus_connection_send_with_reply\<close> returns \<^verbatim>\<open>TRUE\<close> with a null pending
  call, \<^verbatim>\<open>authorize_device\<close> registers no continuation and still returns 0, so
  \<^verbatim>\<open>connect_event_cb\<close> does not close the channels (as it does after \<open>- ENOMEM\<close> and
  \<open>- EACCES\<close>) and nothing is left to admit or close the pair: the run has neither outcome.
\<close>

theorem interrupt_connection_null_pending_call_no_outcome:
  "connect_event_cb disconnected_env started_state (GIOChannel 7) 0 addr_A addr_B
     L2CAP_PSM_HIDP_INTR =
     (None,
      [LogDebug ''Incoming connection on PSM %d'',
       SetChannel addr_A addr_B L2CAP_PSM_HIDP_INTR 7,
       ReqAuth addr_A addr_B HID_UUID,
       NewMethodCall ''org.bluez'' ''/org/bluez'' ''org.bluez.Database'' ''RequestAuthorization'',
       SendWithReply (Some 1)
         (MethodCall ''org.bluez'' ''/org/bluez'' ''org.bluez.Database''
            ''RequestAuthorization'' [''BB:BB:BB:BB:BB:BB'', HID_UUID]),
       SetNotify None \<lparr>auth_src = addr_A, auth_dst = addr_B\<rparr>,
       PendingCallUnref None,
       MessageUnref
         (MethodCall ''org.bluez'' ''/org/bluez'' ''org.bluez.Database''
            ''RequestAuthorization'' [''BB:BB:BB:BB:BB:BB'', HID_UUID])]) \<and>
   fst (authorize_device disconnected_env started_state addr_A addr_B) = 0 \<and>
   filter (admitted addr_A addr_B)
     (connection_run disconnected_env started_state started_state (GIOChannel 7) 0
        addr_A addr_B L2CAP_PSM_HIDP_INTR None MethodReturn) = [] \<and>
   filter (closed addr_A addr_B (g_io_channel_unix_get_fd (GIOChannel 7)))
     (connection_run disconnected_env started_state started_state (GIOChannel 7) 0
        addr_A addr_B L2CAP_PSM_HIDP_INTR None MethodReturn) = []"
  by (simp add: connection_run_def connect_event_cb_def authorize_device_def
      authorize_device_fallback_def disconnected_env_def example_env_def Let_def
      started_state_def admitted_def closed_def L2CAP_PSM_HIDP_INTR_def
      L2CAP_PSM_HIDP_CTRL_def addr_B_def hex_byte_def hex_digit_def)

subsection \<open>The fallback request\<close>



subsection \<open>Cancellation\<close>

lemma cancel_authorization_calls:
  "filter cancellation_call (cancel_authorization E st addr) =
     (if dbus_message_new_method_call E ''org.bluez'' ''/org/bluez'' ''org.bluez.Database''
           ''CancelAuthorizationRequest''
      then [SendMessage (connection st)
              (MethodCall ''org.bluez'' ''/org/bluez'' ''org.bluez.Database''
                 ''CancelAuthorizationRequest'' [addr, HID_UUID])]
      else [])"
  "filter new_method_call (cancel_authorization E st addr) =
     [NewMethodCall ''org.bluez'' ''/org/bluez'' ''org.bluez.Database''
        ''CancelAuthorizationRequest'']"
  by (simp_all add: cancel_authorization_def)

text \<open>
  Claim C3, as stated, fails on the fallback continuation: \<^verbatim>\<open>cancel_authorization\<close> returns
  without sending anything when \<^verbatim>\<open>dbus_message_new_method_call\<close> gives no message. Here the
  reply is the error \<^verbatim>\<open>NoReply\<close>, the message for the cancellation cannot be allocated, and
  no cancellation call is made.
\<close>

theorem cancellation_not_sent_without_message:
  "no_reply (dbus_set_error_from_message
      (ErrorReply \<lparr>err_name = DBUS_ERROR_NO_REPLY, err_message = ''timed out''\<rparr>)) \<and>
   length (filter cancellation_call
     (authorization_callback (example_env 0 (- 1) True True False None None) started_state
        (ErrorReply \<lparr>err_name = DBUS_ERROR_NO_REPLY, err_message = ''timed out''\<rparr>)
        \<lparr>auth_src = addr_A, auth_dst = addr_B\<rparr>)) = 0"
  by (simp add: authorization_callback_def cancel_authorization_def no_reply_def
      dbus_set_error_from_message_def dbus_error_has_name_def example_env_def)

text \<open>
  Claim C3, amended. In the primary continuation an error \<^verbatim>\<open>NoReply\<close> gives exactly one
  call \<^verbatim>\<open>service_cancel_auth\<close> for the destination address of the pair; any other error, and
  no error, give none. In the fallback continuation an error \<^verbatim>\<open>NoReply\<close> gives exactly one
  attempt to build the \<^verbatim>\<open>CancelAuthorizationRequest\<close> call, which is sent once, for the
  destination address and the HID UUID, when the message is allocated and not at all
  otherwise; any other error, and no error, give no attempt and no cancellation call.
\<close>

theorem cancellation_once_on_no_reply:
  "filter cancellation_call (auth_callback derr auth) =
     (if no_reply derr then [ServiceCancelAuth (auth_dst auth)] else []) \<and>
   filter new_method_call (authorization_callback E st reply auth) =
     (if no_reply (dbus_set_error_from_message reply)
      then [NewMethodCall ''org.bluez'' ''/org/bluez'' ''org.bluez.Database''
              ''CancelAuthorizationRequest'']
      else []) \<and>
   filter cancellation_call (authorization_callback E st reply auth) =
     (if no_reply (dbus_set_error_from_message reply) \<and>
         dbus_message_new_method_call E ''org.bluez'' ''/org/bluez'' ''org.bluez.Database''
           ''CancelAuthorizationRequest''
      then [SendMessage (connection st)
              (MethodCall ''org.bluez'' ''/org/bluez'' ''org.bluez.Database''
                 ''CancelAuthorizationRequest'' [ba2str E (auth_dst auth), HID_UUID])]
      else [])"
proof (intro conjI)
  show "filter cancellation_call (auth_callback derr auth) =
     (if no_reply derr then [ServiceCancelAuth (auth_dst auth)] else [])"
    by (cases derr) (simp_all add: auth_callback_def no_reply_def)
next
  show "filter new_method_call (authorization_callback E st reply auth) =
     (if no_reply (dbus_set_error_from_message reply)
      then [NewMethodCall ''org.bluez'' ''/org/bluez'' ''org.bluez.Database''
              ''CancelAuthorizationRequest'']
      else [])"
    by (cases "dbus_set_error_from_message reply")
      (simp_all add: authorization_callback_def no_reply_def cancel_authorization_calls)
next
  show "filter cancellation_call (authorization_callback E st reply auth) =
     (if no_reply (dbus_set_error_from_message reply) \<and>
         dbus_message_new_method_call E ''org.bluez'' ''/org/bluez'' ''org.bluez.Database''
           ''CancelAuthorizationRequest''
      then [SendMessage (connection st)
              (MethodCall ''org.bluez'' ''/org/bluez'' ''org.bluez.Database''
                 ''CancelAuthorizationRequest'' [ba2str E (auth_dst auth), HID_UUID])]
      else [])"
    by (cases "dbus_set_error_from_message reply")
      (simp_all add: authorization_callback_def no_reply_def cancel_authorization_calls)
qed

subsection \<open>What a continuation tells the device registry\<close>

text \<open>
  Claim C4. Either continuation makes exactly one call to the device registry among
  \<^verbatim>\<open>input_device_connadd\<close> and \<^verbatim>\<open>input_device_close_channels\<close>, for its own pair:
  \<^verbatim>\<open>input_device_connadd\<close> when the result carries no error, and
  \<^verbatim>\<open>input_device_close_channels\<close> when it carries an error, whichever error it is.
\<close>

theorem continuation_admits_or_closes:
  "filter registry_call (auth_callback derr auth) =
     (case derr of
        None \<Rightarrow> [Connadd (auth_src auth) (auth_dst auth)]
      | Some e \<Rightarrow> [CloseChannels (auth_src auth) (auth_dst auth)]) \<and>
   filter registry_call (authorization_callback E st reply auth) =
     (case dbus_set_error_from_message reply of
        None \<Rightarrow> [Connadd (auth_src auth) (auth_dst auth)]
      | Some e \<Rightarrow> [CloseChannels (auth_src auth) (auth_dst auth)])"
  by (simp add: auth_callback_def authorization_callback_def cancel_authorization_def
      split: option.splits)

subsection \<open>A connection that the registry does not take\<close>

text \<open>
  Claim C5. When \<^verbatim>\<open>input_device_set_channel\<close> fails for an accepted connection, the
  control PSM gets one \<^verbatim>\<open>write\<close> of the single byte \<open>0x15\<close> on the socket and then the
  \<^verbatim>\<open>close\<close> of the socket; the interrupt PSM gets the \<^verbatim>\<open>close\<close> alone. Nothing else follows.
\<close>

theorem unplug_on_failed_registration:
  assumes "0 \<le> err"
    and "input_device_set_channel E src dst psm (g_io_channel_unix_get_fd chan) < 0"
  shows "(psm = L2CAP_PSM_HIDP_CTRL \<longrightarrow>
            connect_event_cb E st chan err src dst psm =
              (None,
               [LogDebug ''Incoming connection on PSM %d'',
                SetChannel src dst psm (g_io_channel_unix_get_fd chan),
                Write (g_io_channel_unix_get_fd chan) [0x15],
                Close (g_io_channel_unix_get_fd chan)])) \<and>
         (psm = L2CAP_PSM_HIDP_INTR \<longrightarrow>
            connect_event_cb E st chan err src dst psm =
              (None,
               [LogDebug ''Incoming connection on PSM %d'',
                SetChannel src dst psm (g_io_channel_unix_get_fd chan),
                Close (g_io_channel_unix_get_fd chan)]))"
  using assms by (auto simp: connect_event_cb_unregistered psm_distinct)

text \<open>
  The theorem for a registry that refuses the channel, on both PSMs.
\<close>

theorem unplug_on_failed_registration_witness:
  "(0::int) \<le> 0 \<and>
   input_device_set_channel (example_env (- 1) 0 True True True None None) addr_A addr_B
     L2CAP_PSM_HIDP_CTRL (g_io_channel_unix_get_fd (GIOChannel 7)) < 0 \<and>
   filter write_call
     (snd (connect_event_cb (example_env (- 1) 0 True True True None None) started_state
        (GIOChannel 7) 0 addr_A addr_B L2CAP_PSM_HIDP_CTRL)) = [Write 7 [0x15]] \<and>
   last (snd (connect_event_cb (example_env (- 1) 0 True True True None None) started_state
        (GIOChannel 7) 0 addr_A addr_B L2CAP_PSM_HIDP_CTRL)) = Close 7 \<and>
   connect_event_cb (example_env (- 1) 0 True True True None None) started_state
        (GIOChannel 7) 0 addr_A addr_B L2CAP_PSM_HIDP_INTR =
     (None,
      [LogDebug ''Incoming connection on PSM %d'', SetChannel addr_A addr_B L2CAP_PSM_HIDP_INTR 7,
       Close 7])"
  using unplug_on_failed_registration [of 0 "example_env (- 1) 0 True True True None None" addr_A addr_B
        L2CAP_PSM_HIDP_CTRL "GIOChannel 7" started_state]
    unplug_on_failed_registration [of 0 "example_env (- 1) 0 True True True None None" addr_A addr_B
        L2CAP_PSM_HIDP_INTR "GIOChannel 7" started_state]
  by (simp add: example_env_def psm_distinct)

subsection \<open>The values that \<^verbatim>\<open>authorize_device\<close> returns\<close>



subsection \<open>Starting and stopping the server\<close>

text \<open>
  Claim C6 asks that \<^verbatim>\<open>server_start\<close> report a failure and store no D-Bus connection when
  the control listener opens and the interrupt listener does not. The code releases the
  control listener and clears \<^verbatim>\<open>ctrl_io\<close>, but the branch has no \<^verbatim>\<open>return\<close> (the branch for
  the control listener has one): the call stores the connection and returns 0.
\<close>

theorem server_start_interrupt_failure_returns_success:
  "server_start (example_env 0 0 True True True (Some (GIOChannel 3)) None) (Some 1)
     initial_state =
     (0, \<lparr>connection = Some 1, ctrl_io = None, intr_io = None\<rparr>,
      [Listen L2CAP_PSM_HIDP_CTRL, SetCloseOnUnref (Some (GIOChannel 3)) True,
       Listen L2CAP_PSM_HIDP_INTR, LogError ''Failed to listen on interrupt channel'',
       Unref (GIOChannel 3), SetCloseOnUnref None True])"
  by (simp add: server_start_def example_env_def initial_state_def Let_def psm_distinct)

text \<open>
  Claim C10 asks that every \<^verbatim>\<open>g_io_channel_set_close_on_unref\<close> of \<^verbatim>\<open>server_start\<close> get a
  channel that is not null. In the same execution, for the same missing \<^verbatim>\<open>return\<close>, the
  second call gets the null \<^verbatim>\<open>intr_io\<close>.
\<close>

theorem server_start_interrupt_failure_null_channel:
  "SetCloseOnUnref None True \<in>
     set (snd (snd (server_start (example_env 0 0 True True True (Some (GIOChannel 3)) None)
       (Some 1) initial_state)))"
  by (simp add: server_start_def example_env_def initial_state_def Let_def psm_distinct)

text \<open>
  Claim C7 asks that \<^verbatim>\<open>server_stop\<close> null the handles it releases, so that a second stop
  releases nothing. The code releases the interrupt listener and then the control listener,
  and a stop before any start does nothing; but it leaves both variables as they are
  (\<^verbatim>\<open>server_start\<close> does clear \<^verbatim>\<open>ctrl_io\<close> after releasing it), so a second stop releases
  both channels again.
\<close>

theorem server_stop_twice_releases_twice:
  "server_start (example_env 0 0 True True True (Some (GIOChannel 3)) (Some (GIOChannel 4)))
     (Some 1) initial_state =
     (0, started_state,
      [Listen L2CAP_PSM_HIDP_CTRL, SetCloseOnUnref (Some (GIOChannel 3)) True,
       Listen L2CAP_PSM_HIDP_INTR, SetCloseOnUnref (Some (GIOChannel 4)) True]) \<and>
   server_stop initial_state = (initial_state, []) \<and>
   server_stop started_state = (started_state, [Unref (GIOChannel 4), Unref (GIOChannel 3)]) \<and>
   server_stop (fst (server_stop started_state)) =
     (started_state, [Unref (GIOChannel 4), Unref (GIOChannel 3)])"
  by (simp add: server_start_def server_stop_def example_env_def initial_state_def
      started_state_def Let_def psm_distinct)

text \<open>
  Claim C8, as stated, fails: after a start that opened both listeners and a stop, the
  variable \<^verbatim>\<open>connection\<close> still holds the connection given to \<^verbatim>\<open>server_start\<close>.
\<close>

theorem connection_not_cleared_after_stop:
  "connection (fst (server_stop (fst (snd (server_start
      (example_env 0 0 True True True (Some (GIOChannel 3)) (Some (GIOChannel 4)))
      (Some 1) initial_state))))) \<noteq> None"
  by (simp add: server_start_def server_stop_def example_env_def initial_state_def
      Let_def psm_distinct)

text \<open>
  Claim C8, amended. A \<^verbatim>\<open>server_start\<close> in which both listeners open returns 0 and stores
  its argument in \<^verbatim>\<open>connection\<close>, by its one assignment; \<^verbatim>\<open>server_stop\<close> does not clear the
  variable: it keeps the value it had before the stop.
\<close>

theorem connection_kept_by_server_stop:
  "(bt_l2cap_listen E L2CAP_PSM_HIDP_CTRL \<noteq> None \<and>
    bt_l2cap_listen E L2CAP_PSM_HIDP_INTR \<noteq> None \<longrightarrow>
    fst (server_start E conn st) = 0 \<and>
    connection (fst (snd (server_start E conn st))) = conn) \<and>
   connection (fst (server_stop st)) = connection st"
  by (auto simp: server_start_def server_stop_def Let_def split: option.splits)

text \<open>
  The theorem at a start that opens both listeners with the connection 1, and at a stop
  in the state that this start leaves.
\<close>

theorem connection_kept_by_server_stop_witness:
  "bt_l2cap_listen
     (example_env 0 0 True True True (Some (GIOChannel 3)) (Some (GIOChannel 4)))
     L2CAP_PSM_HIDP_CTRL \<noteq> None \<and>
   bt_l2cap_listen
     (example_env 0 0 True True True (Some (GIOChannel 3)) (Some (GIOChannel 4)))
     L2CAP_PSM_HIDP_INTR \<noteq> None \<and>
   fst (server_start
     (example_env 0 0 True True True (Some (GIOChannel 3)) (Some (GIOChannel 4)))
     (Some 1) initial_state) = 0 \<and>
   connection (fst (snd (server_start
     (example_env 0 0 True True True (Some (GIOChannel 3)) (Some (GIOChannel 4)))
     (Some 1) initial_state))) = Some 1 \<and>
   connection (fst (server_stop started_state)) = Some 1"
  using connection_kept_by_server_stop
    [of "example_env 0 0 True True True (Some (GIOChannel 3)) (Some (GIOChannel 4))"
        "Some 1" initial_state]
    connection_kept_by_server_stop
    [of "example_env 0 0 True True True (Some (GIOChannel 3)) (Some (GIOChannel 4))"
        "Some 1" started_state]
  by (simp add: example_env_def psm_distinct started_state_def)

end
